theory Spec2Isabelle
  imports Complex_Main "HOL-Library.Word"
begin

section \<open>Data model\<close>

text \<open>
  The enumeration and the transcript entry of \<^verbatim>\<open>src/types.ts\<close>. The entry's fields
  \<^verbatim>\<open>type\<close> and \<^verbatim>\<open>text\<close> are written \<open>entry_type\<close> and \<open>entry_text\<close>; the timestamp
  is what \<^verbatim>\<open>Date.now()\<close> returns, an integral number of milliseconds.
\<close>

datatype SessionStatus = DISCONNECTED | CONNECTING | CONNECTED | ERROR

datatype Speaker = user | model

record TranscriptionEntry =
  entry_type :: Speaker
  entry_text :: string
  timestamp :: int

text \<open>
  An \<^verbatim>\<open>AudioBufferSourceNode\<close> created by the audio branch of \<^verbatim>\<open>onmessage\<close>: its
  identity, the duration of its buffer and the time handed to \<^verbatim>\<open>source.start\<close>.
  Times of the output device are real numbers of seconds.
\<close>

record AudioBufferSourceNode =
  node_id :: nat
  duration :: real
  startedAt :: real

text \<open>
  The state of the \<^verbatim>\<open>App\<close> component (\<^verbatim>\<open>src/unnamed/part_002\<close>, lines 9 to 22): the
  four \<^verbatim>\<open>useState\<close> cells, the refs, and the global \<^verbatim>\<open>window._audioCleanup\<close>, which
  when set is a closure over the microphone stream of the session that opened.
  \<open>audioSources\<close> is the JavaScript \<^verbatim>\<open>Set\<close>, kept in insertion order as \<^verbatim>\<open>forEach\<close>
  visits it. The last five fields are the part of the browser the component acts on:
  the session handles on which \<^verbatim>\<open>close()\<close> was called, the nodes on which
  \<^verbatim>\<open>stop()\<close> was called, the microphone streams whose tracks are running, the
  streams whose capture nodes are connected, and the number of source nodes
  created so far (the identity of the next one).
\<close>

record App =
  status :: SessionStatus
  isModelTalking :: bool
  transcript :: "TranscriptionEntry list"
  error :: "string option"
  audioContexts :: bool
  nextStartTime :: real
  audioSources :: "AudioBufferSourceNode list"
  sessionRef :: "nat option"
  transcriptionBuffer_user :: string
  transcriptionBuffer_model :: string
  audioCleanup :: "nat option"
  closedSessions :: "nat list"
  stoppedNodes :: "nat list"
  liveTracks :: "nat list"
  captureGraphs :: "nat list"
  nodeCount :: nat

definition initialApp :: App where
  "initialApp =
     \<lparr>status = DISCONNECTED, isModelTalking = False, transcript = [], error = None,
      audioContexts = False, nextStartTime = 0, audioSources = [], sessionRef = None,
      transcriptionBuffer_user = [], transcriptionBuffer_model = [],
      audioCleanup = None, closedSessions = [], stoppedNodes = [], liveTracks = [],
      captureGraphs = [], nodeCount = 0\<rparr>"

text \<open>
  The fields of a \<^verbatim>\<open>LiveServerMessage\<close> that \<^verbatim>\<open>onmessage\<close> reads.
  \<open>inlineData\<close> is \<^verbatim>\<open>serverContent?.modelTurn?.parts[0]?.inlineData?.data\<close>, absent
  when any link of the chain is; a transcription is an object whose \<^verbatim>\<open>text\<close> may be
  undefined.
\<close>

datatype Transcription = Transcription (transcription_text: "string option")

record LiveServerMessage =
  inlineData :: "string option"
  interrupted :: bool
  inputTranscription :: "Transcription option"
  outputTranscription :: "Transcription option"
  turnComplete :: bool

text \<open>
  What the environment supplies while one message is handled: the output
  context's \<^verbatim>\<open>currentTime\<close> read at line 95, and the two readings of \<^verbatim>\<open>Date.now()\<close>,
  at line 135 for the user entry and at line 136 for the model entry.
\<close>

record Env =
  currentTime :: real
  dateNow_user :: int
  dateNow_model :: int

text \<open>A message none of whose fields is set.\<close>

definition emptyMessage :: LiveServerMessage where
  "emptyMessage =
     \<lparr>inlineData = None, interrupted = False, inputTranscription = None,
      outputTranscription = None, turnComplete = False\<rparr>"

section \<open>Stopping a session\<close>

text \<open>\<^verbatim>\<open>stopSession\<close>, lines 40 to 49.\<close>

definition stopSession :: "App \<Rightarrow> App" where
  "stopSession s =
     (let s1 = (case sessionRef s of
                  Some h \<Rightarrow> s\<lparr>closedSessions := closedSessions s @ [h], sessionRef := None\<rparr>
                | None \<Rightarrow> s);
          s2 = s1\<lparr>stoppedNodes := stoppedNodes s1 @ map node_id (audioSources s1)\<rparr>;
          s3 = s2\<lparr>audioSources := []\<rparr>
      in s3\<lparr>status := DISCONNECTED, isModelTalking := False\<rparr>)"

text \<open>
  The closure stored in \<^verbatim>\<open>window._audioCleanup\<close> (lines 83 to 87) for the stream
  \<open>st\<close>: it disconnects the capture nodes and stops the tracks of the stream.
\<close>

definition runAudioCleanup :: "nat \<Rightarrow> App \<Rightarrow> App" where
  "runAudioCleanup st s =
     s\<lparr>captureGraphs := filter (\<lambda>x. x \<noteq> st) (captureGraphs s),
       liveTracks := filter (\<lambda>x. x \<noteq> st) (liveTracks s)\<rparr>"

text \<open>The effect cleanup run when the component unmounts, lines 172 to 177.\<close>

definition unmount :: "App \<Rightarrow> App" where
  "unmount s =
     (let s1 = stopSession s
      in case audioCleanup s1 of Some st \<Rightarrow> runAudioCleanup st s1 | None \<Rightarrow> s1)"

section \<open>Handling a server message\<close>

text \<open>
  \<^verbatim>\<open>String.prototype.trim\<close> removes white space and line terminators from both
  ends. A \<open>char\<close> is one byte, so the white space of the model is the part of
  ECMAScript's below U+0100: tab, line feed, vertical tab, form feed, carriage
  return, space and no-break space.
\<close>

definition isWhiteSpace :: "char \<Rightarrow> bool" where
  "isWhiteSpace c \<longleftrightarrow> of_char c \<in> {9, 10, 11, 12, 13, 32, 160 :: nat}"

definition trim :: "string \<Rightarrow> string" where
  "trim s = rev (dropWhile isWhiteSpace (rev (dropWhile isWhiteSpace s)))"

text \<open>A string is truthy when it is not empty.\<close>

definition truthy :: "string \<Rightarrow> bool" where
  "truthy t \<longleftrightarrow> t \<noteq> []"

text \<open>
  The audio branch, lines 91 to 110. \<open>decodeAudioData\<close> stands for
  \<^verbatim>\<open>decodeAudioData(decode(base64Audio), outputCtx, 24000, 1)\<close> of
  \<^verbatim>\<open>utils/audioUtils\<close>: it gives the duration of the decoded buffer, or \<open>None\<close> when
  the promise rejects. An empty string is falsy, so it is skipped like an absent
  payload. When the decoder rejects, the handler ends there: the result is \<open>Inl\<close> of
  the state reached, and the rest of \<^verbatim>\<open>onmessage\<close> does not run. The \<^verbatim>\<open>await\<close> of
  line 97 is taken to resume before any other callback runs, so that one message
  is handled in one step.
\<close>

definition audioOutput ::
  "(string \<Rightarrow> real option) \<Rightarrow> Env \<Rightarrow> LiveServerMessage \<Rightarrow> App \<Rightarrow> App + App" where
  "audioOutput decodeAudioData env m s =
     (case inlineData m of
        None \<Rightarrow> Inr s
      | Some base64Audio \<Rightarrow>
          if \<not> truthy base64Audio then Inr s
          else
            let s1 = s\<lparr>isModelTalking := True\<rparr>;
                s2 = s1\<lparr>nextStartTime := max (nextStartTime s1) (currentTime env)\<rparr>
            in case decodeAudioData base64Audio of
                 None \<Rightarrow> Inl s2
               | Some d \<Rightarrow>
                   let source = \<lparr>node_id = nodeCount s2, duration = d,
                                 startedAt = nextStartTime s2\<rparr>;
                       s3 = s2\<lparr>nodeCount := Suc (nodeCount s2)\<rparr>;
                       s4 = s3\<lparr>nextStartTime := nextStartTime s3 + d\<rparr>
                   in Inr (s4\<lparr>audioSources := audioSources s4 @ [source]\<rparr>))"

text \<open>The interruption branch, lines 113 to 118.\<close>

definition interruption :: "LiveServerMessage \<Rightarrow> App \<Rightarrow> App" where
  "interruption m s =
     (if interrupted m
      then s\<lparr>stoppedNodes := stoppedNodes s @ map node_id (audioSources s),
             audioSources := [],
             nextStartTime := 0,
             isModelTalking := False\<rparr>
      else s)"

text \<open>
  The transcription branches, lines 121 to 126. \<^verbatim>\<open>+=\<close> on a string converts an
  undefined \<^verbatim>\<open>text\<close> to the string \<^verbatim>\<open>undefined\<close>.
\<close>

definition appendText :: "string \<Rightarrow> Transcription \<Rightarrow> string" where
  "appendText b t =
     b @ (case transcription_text t of Some x \<Rightarrow> x | None \<Rightarrow> ''undefined'')"

definition transcriptions :: "LiveServerMessage \<Rightarrow> App \<Rightarrow> App" where
  "transcriptions m s =
     (let s1 = (case inputTranscription m of
                  Some t \<Rightarrow> s\<lparr>transcriptionBuffer_user :=
                                appendText (transcriptionBuffer_user s) t\<rparr>
                | None \<Rightarrow> s)
      in case outputTranscription m of
           Some t \<Rightarrow> s1\<lparr>transcriptionBuffer_model :=
                          appendText (transcriptionBuffer_model s1) t\<rparr>
         | None \<Rightarrow> s1)"

text \<open>
  The turn-complete branch, lines 128 to 141. The entries appended by the updater
  handed to \<^verbatim>\<open>setTranscript\<close> are \<open>flushedEntries\<close>; each entry reads the clock when
  it is built.
\<close>

definition flushedEntries :: "Env \<Rightarrow> string \<Rightarrow> string \<Rightarrow> TranscriptionEntry list" where
  "flushedEntries env userText modelText =
     (if truthy userText
      then [\<lparr>entry_type = user, entry_text = userText, timestamp = dateNow_user env\<rparr>]
      else [])
     @ (if truthy modelText
        then [\<lparr>entry_type = model, entry_text = modelText,
               timestamp = dateNow_model env + 1\<rparr>]
        else [])"

definition turnCompleted :: "Env \<Rightarrow> LiveServerMessage \<Rightarrow> App \<Rightarrow> App" where
  "turnCompleted env m s =
     (if turnComplete m
      then
        let userText = trim (transcriptionBuffer_user s);
            modelText = trim (transcriptionBuffer_model s);
            s1 = (if truthy userText \<or> truthy modelText
                  then s\<lparr>transcript := transcript s @ flushedEntries env userText modelText\<rparr>
                  else s)
        in s1\<lparr>transcriptionBuffer_user := [], transcriptionBuffer_model := []\<rparr>
      else s)"

text \<open>\<^verbatim>\<open>onmessage\<close>, lines 89 to 142: the four branches in the order of the source.\<close>

definition onmessage ::
  "(string \<Rightarrow> real option) \<Rightarrow> Env \<Rightarrow> LiveServerMessage \<Rightarrow> App \<Rightarrow> App" where
  "onmessage decodeAudioData env m s =
     (case audioOutput decodeAudioData env m s of
        Inl s' \<Rightarrow> s'
      | Inr s1 \<Rightarrow> turnCompleted env m (transcriptions m (interruption m s1)))"

text \<open>
  \<^verbatim>\<open>source.onended\<close>, lines 102 to 105, for the node with identity \<open>i\<close>.
\<close>

definition onended :: "nat \<Rightarrow> App \<Rightarrow> App" where
  "onended i s =
     (let s1 = s\<lparr>audioSources := filter (\<lambda>n. node_id n \<noteq> i) (audioSources s)\<rparr>
      in if audioSources s1 = [] then s1\<lparr>isModelTalking := False\<rparr> else s1)"

section \<open>Starting a session\<close>

text \<open>
  \<^verbatim>\<open>startSession\<close>, lines 51 to 169, is an \<^verbatim>\<open>async\<close> function: it runs up to its
  first \<^verbatim>\<open>await\<close>, and its remainder runs after the awaited promises settle, with
  the callbacks of the session free to run in between. \<open>StartOutcome\<close> lists the
  ways the remainder can go: each of the calls inside the \<^verbatim>\<open>try\<close> block throwing or
  rejecting with an error whose \<^verbatim>\<open>message\<close> is given (\<open>None\<close> when undefined), or the
  session promise resolving. \<^verbatim>\<open>getUserMedia\<close> yields the stream \<open>st\<close>, the session
  promise the handle \<open>h\<close>.
\<close>

datatype StartOutcome =
    NewAudioContextThrows "string option"
  | ResumeRejects "string option"
  | GoogleGenAIThrows "string option"
  | GetUserMediaRejects "string option"
  | ConnectRejects nat "string option"
  | ConnectResolves nat nat

text \<open>\<^verbatim>\<open>err.message || '...'\<close> of line 166: an empty message is falsy.\<close>

definition errorMessage :: "string option \<Rightarrow> string" where
  "errorMessage msg =
     (case msg of
        Some m \<Rightarrow> if truthy m then m
                  else ''Could not access microphone or start AI session.''
      | None \<Rightarrow> ''Could not access microphone or start AI session.'')"

text \<open>The \<^verbatim>\<open>catch\<close> block, lines 164 to 168.\<close>

definition catchStart :: "string option \<Rightarrow> App \<Rightarrow> App" where
  "catchStart err s =
     (let s1 = s\<lparr>error := Some (errorMessage err)\<rparr>
      in s1\<lparr>status := DISCONNECTED\<rparr>)"

text \<open>Lines 53 and 54, which run at the call.\<close>

definition startSession_sync :: "App \<Rightarrow> App" where
  "startSession_sync s =
     (let s1 = s\<lparr>status := CONNECTING\<rparr>
      in s1\<lparr>error := None\<rparr>)"

text \<open>
  Lines 55 to 168. \<^verbatim>\<open>initAudio\<close> builds the two contexts when there are none, then
  resumes them; a stream that \<^verbatim>\<open>getUserMedia\<close> has handed out has running tracks.
\<close>

definition startSession_rest :: "StartOutcome \<Rightarrow> App \<Rightarrow> App" where
  "startSession_rest out s =
     (case out of
        NewAudioContextThrows e \<Rightarrow> catchStart e s
      | ResumeRejects e \<Rightarrow> catchStart e (s\<lparr>audioContexts := True\<rparr>)
      | GoogleGenAIThrows e \<Rightarrow> catchStart e (s\<lparr>audioContexts := True\<rparr>)
      | GetUserMediaRejects e \<Rightarrow> catchStart e (s\<lparr>audioContexts := True\<rparr>)
      | ConnectRejects st e \<Rightarrow>
          catchStart e (s\<lparr>audioContexts := True, liveTracks := liveTracks s @ [st]\<rparr>)
      | ConnectResolves st h \<Rightarrow>
          s\<lparr>audioContexts := True, liveTracks := liveTracks s @ [st],
            sessionRef := Some h\<rparr>)"

definition startSession :: "StartOutcome \<Rightarrow> App \<Rightarrow> App" where
  "startSession out s = startSession_rest out (startSession_sync s)"

text \<open>Whether the outcome is an error raised inside the \<^verbatim>\<open>try\<close> block, and which.\<close>

fun raised :: "StartOutcome \<Rightarrow> string option option" where
  "raised (NewAudioContextThrows e) = Some e"
| "raised (ResumeRejects e) = Some e"
| "raised (GoogleGenAIThrows e) = Some e"
| "raised (GetUserMediaRejects e) = Some e"
| "raised (ConnectRejects st e) = Some e"
| "raised (ConnectResolves st h) = None"

text \<open>
  The callbacks \<^verbatim>\<open>onopen\<close> (lines 63 to 88, for the session whose stream is \<open>st\<close>),
  \<^verbatim>\<open>onerror\<close> (lines 143 to 147) and \<^verbatim>\<open>onclose\<close> (lines 148 to 150).
\<close>

definition onopen :: "nat \<Rightarrow> App \<Rightarrow> App" where
  "onopen st s =
     (let s1 = s\<lparr>status := CONNECTED\<rparr>;
          s2 = s1\<lparr>captureGraphs := captureGraphs s1 @ [st]\<rparr>
      in s2\<lparr>audioCleanup := Some st\<rparr>)"

definition onerror :: "App \<Rightarrow> App" where
  "onerror s =
     stopSession (s\<lparr>error := Some ''A connection error occurred. Please try again.''\<rparr>)"

definition onclose :: "App \<Rightarrow> App" where
  "onclose s = s\<lparr>status := DISCONNECTED\<rparr>"

text \<open>
  The button, lines 219 to 221: it is disabled while the status is \<^verbatim>\<open>CONNECTING\<close>,
  and its handler is \<^verbatim>\<open>stopSession\<close> when the status is \<^verbatim>\<open>CONNECTED\<close> and
  \<^verbatim>\<open>startSession\<close> otherwise. A click runs the handler up to its first \<^verbatim>\<open>await\<close>.
\<close>

definition disabled :: "App \<Rightarrow> bool" where
  "disabled s \<longleftrightarrow> status s = CONNECTING"

definition onClick :: "App \<Rightarrow> App" where
  "onClick s =
     (if disabled s then s
      else if status s = CONNECTED then stopSession s
      else startSession_sync s)"

section \<open>The component as a transition system\<close>

text \<open>
  Everything that can run on the component: a click on the button, the remainder
  of a pending \<^verbatim>\<open>startSession\<close>, the four callbacks of the session, the end of a
  source node, and the unmounting of the component.
\<close>

datatype Event =
    Click
  | StartSettles StartOutcome
  | OnOpen nat
  | OnMessage Env LiveServerMessage
  | OnError
  | OnClose
  | OnEnded nat
  | Unmount

fun step :: "(string \<Rightarrow> real option) \<Rightarrow> Event \<Rightarrow> App \<Rightarrow> App" where
  "step dec Click s = onClick s"
| "step dec (StartSettles out) s = startSession_rest out s"
| "step dec (OnOpen st) s = onopen st s"
| "step dec (OnMessage env m) s = onmessage dec env m s"
| "step dec OnError s = onerror s"
| "step dec OnClose s = onclose s"
| "step dec (OnEnded i) s = onended i s"
| "step dec Unmount s = unmount s"

definition run :: "(string \<Rightarrow> real option) \<Rightarrow> Event list \<Rightarrow> App \<Rightarrow> App" where
  "run dec es s = foldl (\<lambda>s e. step dec e s) s es"



section \<open>The PCM codec\<close>

text \<open>
  \<^verbatim>\<open>utils/audioUtils\<close>, from which \<^verbatim>\<open>part_002\<close> imports \<^verbatim>\<open>createPcmBlob\<close>, \<^verbatim>\<open>decode\<close>
  and \<^verbatim>\<open>decodeAudioData\<close>, is not among the sources, so the codec below follows the
  spec's \<open>encode\<close> and \<open>decode\<close>. Samples are real numbers: on a 32-bit float
  sample every operation below is exact in double precision (a 24-bit by 15-bit
  product, the conversion to an integer, and the division of a 16-bit integer by
  a power of two), so the reals compute what the floats do.
\<close>

text \<open>
  Modelled from the spec: the conversion of the scaled sample to an integer, of the
  missing \<^verbatim>\<open>createPcmBlob\<close>. The spec does not say which conversion it is, so the
  codec takes it as a parameter: dropping the fraction (what a store into an
  \<^verbatim>\<open>Int16Array\<close> does), rounding to the nearest integer (\<^verbatim>\<open>Math.round\<close>), rounding
  down (\<^verbatim>\<open>Math.floor\<close>) or rounding up (\<^verbatim>\<open>Math.ceil\<close>).
\<close>

datatype Rounding = TowardZero | ToNearest | Down | Up

text \<open>
  Modelled from the spec: what each of the four conversions gives, for the missing
  \<^verbatim>\<open>createPcmBlob\<close>.
\<close>

fun toInteger :: "Rounding \<Rightarrow> real \<Rightarrow> int" where
  "toInteger TowardZero x = (if 0 \<le> x then \<lfloor>x\<rfloor> else \<lceil>x\<rceil>)"
| "toInteger ToNearest x = \<lfloor>x + 1 / 2\<rfloor>"
| "toInteger Down x = \<lfloor>x\<rfloor>"
| "toInteger Up x = \<lceil>x\<rceil>"

text \<open>
  Modelled from the spec: the clamp to the signed 16-bit range, of the missing
  \<^verbatim>\<open>createPcmBlob\<close>.
\<close>

definition toInt16 :: "Rounding \<Rightarrow> real \<Rightarrow> int" where
  "toInt16 r x = max (- 32768) (min 32767 (toInteger r x))"

text \<open>
  Modelled from the spec: the little-endian serialisation of one 16-bit value,
  low byte first, of the missing \<^verbatim>\<open>createPcmBlob\<close>.
\<close>

definition int16_bytes :: "int \<Rightarrow> 8 word list" where
  "int16_bytes k =
     (let w = (word_of_int k :: 16 word) in [ucast w, ucast (drop_bit 8 w)])"

text \<open>
  Modelled from the spec: \<open>encode\<close>, which scales each sample by 32767, clamps it
  to the signed 16-bit range and serialises it little-endian (the missing
  \<^verbatim>\<open>createPcmBlob\<close>).
\<close>

definition encode :: "Rounding \<Rightarrow> real list \<Rightarrow> 8 word list" where
  "encode r samples = concat (map (\<lambda>x. int16_bytes (toInt16 r (x * 32767))) samples)"

text \<open>
  Modelled from the spec: \<open>decode\<close>, which reads the bytes two by two as signed
  little-endian 16-bit values, divides each by 32768 and drops a trailing odd
  byte (the missing \<^verbatim>\<open>decodeAudioData\<close>).
\<close>

fun decode :: "8 word list \<Rightarrow> real list" where
  "decode (lo # hi # bs) =
     real_of_int (sint (word_cat hi lo :: 16 word)) / 32768 # decode bs"
| "decode bs = []"

section \<open>Facts about the branches of the message handler\<close>

lemma audioOutput_enqueue:
  assumes "inlineData m = Some p" "p \<noteq> []" "dec p = Some d"
  shows "audioOutput dec env m s =
     Inr (s\<lparr>isModelTalking := True,
            nextStartTime := max (nextStartTime s) (currentTime env) + d,
            nodeCount := Suc (nodeCount s),
            audioSources := audioSources s @
              [\<lparr>node_id = nodeCount s, duration = d,
                startedAt = max (nextStartTime s) (currentTime env)\<rparr>]\<rparr>)"
  using assms by (simp add: audioOutput_def truthy_def Let_def)

lemma audioOutput_absent: "inlineData m = None \<Longrightarrow> audioOutput dec env m s = Inr s"
  by (simp add: audioOutput_def)

lemma audioOutput_status:
  "audioOutput dec env m s = Inl s' \<Longrightarrow> status s' = status s"
  "audioOutput dec env m s = Inr s' \<Longrightarrow> status s' = status s"
  by (auto simp add: audioOutput_def Let_def split: option.splits if_splits)


lemma interruption_skip: "\<not> interrupted m \<Longrightarrow> interruption m s = s"
  by (simp add: interruption_def)

lemma interruption_status: "status (interruption m s) = status s"
  by (simp add: interruption_def)

lemma transcriptions_audio:
  "nextStartTime (transcriptions m s) = nextStartTime s"
  "audioSources (transcriptions m s) = audioSources s"
  "status (transcriptions m s) = status s"
  by (simp_all add: transcriptions_def Let_def split: option.splits)

lemma turnCompleted_audio:
  "nextStartTime (turnCompleted env m s) = nextStartTime s"
  "audioSources (turnCompleted env m s) = audioSources s"
  "status (turnCompleted env m s) = status s"
  by (simp_all add: turnCompleted_def Let_def)

lemma turnCompleted_transcript:
  "turnComplete m \<Longrightarrow>
   transcript (turnCompleted env m s) =
     transcript s @ flushedEntries env (trim (transcriptionBuffer_user s))
                                   (trim (transcriptionBuffer_model s))"
  by (simp add: turnCompleted_def Let_def flushedEntries_def)

lemma turnCompleted_reset:
  "turnComplete m \<Longrightarrow>
   transcriptionBuffer_user (turnCompleted env m s) = [] \<and>
   transcriptionBuffer_model (turnCompleted env m s) = []"
  by (simp add: turnCompleted_def Let_def)

lemma onmessage_enqueue:
  assumes "inlineData m = Some p" "p \<noteq> []" "dec p = Some d" "\<not> interrupted m"
  shows "nextStartTime (onmessage dec env m s) = max (nextStartTime s) (currentTime env) + d"
    and "audioSources (onmessage dec env m s) =
           audioSources s @ [\<lparr>node_id = nodeCount s, duration = d,
                               startedAt = max (nextStartTime s) (currentTime env)\<rparr>]"
  using assms
  by (simp_all add: onmessage_def audioOutput_enqueue interruption_skip
        transcriptions_audio turnCompleted_audio)

lemma onmessage_status: "status (onmessage dec env m s) = status s"
  by (cases "audioOutput dec env m s")
     (simp_all add: onmessage_def audioOutput_status interruption_status
        transcriptions_audio turnCompleted_audio)



lemma transcriptions_playback:
  "stoppedNodes (transcriptions m s) = stoppedNodes s"
  "nodeCount (transcriptions m s) = nodeCount s"
  "isModelTalking (transcriptions m s) = isModelTalking s"
  by (simp_all add: transcriptions_def Let_def split: option.splits)

lemma turnCompleted_playback:
  "stoppedNodes (turnCompleted env m s) = stoppedNodes s"
  "nodeCount (turnCompleted env m s) = nodeCount s"
  "isModelTalking (turnCompleted env m s) = isModelTalking s"
  by (simp_all add: turnCompleted_def Let_def)

lemma audioOutput_keeps_sources:
  "audioOutput dec env m s = Inr s1 \<Longrightarrow> set (audioSources s) \<subseteq> set (audioSources s1)"
  by (auto simp add: audioOutput_def Let_def split: option.splits if_splits)

lemma onmessage_interrupted:
  assumes "interrupted m" "audioOutput dec env m s = Inr s1"
  shows "stoppedNodes (onmessage dec env m s) = stoppedNodes s1 @ map node_id (audioSources s1)"
    and "audioSources (onmessage dec env m s) = []"
    and "nextStartTime (onmessage dec env m s) = 0"
    and "isModelTalking (onmessage dec env m s) = False"
    and "nodeCount (onmessage dec env m s) = nodeCount s1"
  using assms
  by (simp_all add: onmessage_def interruption_def transcriptions_audio turnCompleted_audio
        transcriptions_playback turnCompleted_playback)

section \<open>Facts about stopping and starting\<close>

lemma stopSession_status: "status (stopSession s) = DISCONNECTED"
  by (simp add: stopSession_def Let_def split: option.splits)




lemma stopSession_microphone:
  "liveTracks (stopSession s) = liveTracks s"
  "captureGraphs (stopSession s) = captureGraphs s"
  by (simp_all add: stopSession_def Let_def split: option.splits)

lemma runAudioCleanup_status: "status (runAudioCleanup st s) = status s"
  by (simp add: runAudioCleanup_def)

lemma catchStart_status:
  "status (catchStart e s) = DISCONNECTED"
  "error (catchStart e s) = Some (errorMessage e)"
  by (simp_all add: catchStart_def Let_def)

lemma errorMessage_nonempty: "errorMessage e \<noteq> []"
  by (simp add: errorMessage_def truthy_def split: option.splits)

lemma startSession_rest_raised:
  "raised out = Some e \<Longrightarrow>
     status (startSession_rest out s) = DISCONNECTED \<and>
     error (startSession_rest out s) = Some (errorMessage e)"
  by (cases out) (simp_all add: startSession_rest_def catchStart_status)

lemma onerror_status:
  "status (onerror s) = DISCONNECTED"
  "error (onerror s) = Some ''A connection error occurred. Please try again.''"
  by (simp_all add: onerror_def stopSession_def Let_def split: option.splits)

section \<open>Facts about the transition system\<close>

lemma step_status:
  "status (step dec e s) \<in> {status s, DISCONNECTED, CONNECTING, CONNECTED}"
proof (cases e)
  case Click
  then show ?thesis
    by (simp add: onClick_def disabled_def stopSession_status startSession_sync_def Let_def)
next
  case (StartSettles out)
  then show ?thesis by (cases out) (simp_all add: startSession_rest_def catchStart_status)
next
  case (OnOpen st)
  then show ?thesis by (simp add: onopen_def Let_def)
next
  case (OnMessage env m)
  then show ?thesis by (simp add: onmessage_status)
next
  case OnError
  then show ?thesis by (simp add: onerror_def stopSession_status)
next
  case OnClose
  then show ?thesis by (simp add: onclose_def)
next
  case (OnEnded i)
  then show ?thesis by (simp add: onended_def Let_def)
next
  case Unmount
  then show ?thesis
    by (simp add: unmount_def Let_def runAudioCleanup_status stopSession_status
        split: option.splits)
qed

lemma step_not_ERROR: "status s \<noteq> ERROR \<Longrightarrow> status (step dec e s) \<noteq> ERROR"
  using step_status [of dec e s] by auto

lemma run_not_ERROR: "status s \<noteq> ERROR \<Longrightarrow> status (run dec es s) \<noteq> ERROR"
  unfolding run_def
  by (induction es arbitrary: s) (simp_all add: step_not_ERROR)


section \<open>Facts about the codec\<close>

lemma word_cat_bytes:
  "word_cat (ucast (drop_bit 8 w) :: 8 word) (ucast w :: 8 word) = (w :: 16 word)"
  by (rule bit_word_eqI) (auto simp add: bit_word_cat_iff bit_ucast_iff bit_drop_bit_eq)

lemma sint_int16:
  "- 32768 \<le> k \<Longrightarrow> k \<le> 32767 \<Longrightarrow> sint (word_of_int k :: 16 word) = k"
  by (simp add: sint_sbintrunc' signed_take_bit_int_eq_self)

lemma toInt16_range: "- 32768 \<le> toInt16 r x \<and> toInt16 r x \<le> 32767"
  by (simp add: toInt16_def)

lemma decode_int16_bytes:
  "- 32768 \<le> k \<Longrightarrow> k \<le> 32767 \<Longrightarrow>
     decode (int16_bytes k @ bs) = real_of_int k / 32768 # decode bs"
  by (simp add: int16_bytes_def Let_def word_cat_bytes sint_int16)

lemma decode_encode_Cons:
  "decode (encode r (x # xs)) =
     real_of_int (toInt16 r (x * 32767)) / 32768 # decode (encode r xs)"
  using toInt16_range [of r "x * 32767"] by (simp add: encode_def decode_int16_bytes)

lemma decode_encode_map:
  "decode (encode r xs) = map (\<lambda>x. real_of_int (toInt16 r (x * 32767)) / 32768) xs"
proof (induction xs)
  case Nil
  show ?case by (simp add: encode_def)
next
  case (Cons x xs)
  then show ?case by (simp only: decode_encode_Cons list.map)
qed

lemma toInteger_near: "\<bar>real_of_int (toInteger r y) - y\<bar> < 1"
  by (cases r) (simp_all, linarith+)

lemma toInt16_scaled:
  assumes "- 1 \<le> x" "x \<le> 1"
  shows "toInt16 r (x * 32767) = toInteger r (x * 32767)"
proof -
  have "real_of_int (toInteger r (x * 32767)) < 32768"
    using toInteger_near [of r "x * 32767"] assms by linarith
  then have hi: "toInteger r (x * 32767) \<le> 32767" by linarith
  have "- 32768 < real_of_int (toInteger r (x * 32767))"
    using toInteger_near [of r "x * 32767"] assms by linarith
  then have lo: "- 32768 \<le> toInteger r (x * 32767)" by linarith
  from hi lo show ?thesis by (simp add: toInt16_def)
qed

lemma sample_error:
  assumes "- 1 \<le> x" "x \<le> 1"
  shows "\<bar>real_of_int (toInt16 r (x * 32767)) / 32768 - x\<bar> < 1 / 16384"
proof -
  define k where "k = real_of_int (toInteger r (x * 32767))"
  have near: "\<bar>k - x * 32767\<bar> < 1"
    unfolding k_def by (rule toInteger_near)
  have above: "k / 32768 - x < 1 / 16384"
    using near assms by linarith
  have below: "- (1 / 16384) < k / 32768 - x"
    using near assms by linarith
  from above below have "\<bar>k / 32768 - x\<bar> < 1 / 16384"
    by linarith
  then show ?thesis
    using assms by (simp only: toInt16_scaled k_def)
qed

section \<open>The transcript flush\<close>

text \<open>
  Claim C1. On a message with the turn-complete flag, both fields of the turn
  buffer are trimmed; each field that is not empty after trimming contributes
  exactly one entry to the transcript and an empty one contributes none, so that
  zero, one or two entries are appended, the user's before the model's; and the
  buffer is empty afterwards in every case. The user entry carries the clock
  reading of line 135 and the model entry the reading of line 136 plus one: the
  model's timestamp is one unit after the user's when the two readings agree.
\<close>

theorem flush_turn:
  assumes "turnComplete m"
  shows "(let u = trim (transcriptionBuffer_user s);
              a = trim (transcriptionBuffer_model s);
              s' = turnCompleted env m s;
              U = \<lparr>entry_type = user, entry_text = u, timestamp = dateNow_user env\<rparr>;
              A = \<lparr>entry_type = model, entry_text = a, timestamp = dateNow_model env + 1\<rparr>
          in transcript s' =
               transcript s @ (if u = [] then [] else [U]) @ (if a = [] then [] else [A])
           \<and> length (transcript s') \<le> length (transcript s) + 2
           \<and> (dateNow_model env = dateNow_user env \<longrightarrow> timestamp A = timestamp U + 1)
           \<and> transcriptionBuffer_user s' = [] \<and> transcriptionBuffer_model s' = [])"
  using assms
  by (simp add: Let_def turnCompleted_transcript turnCompleted_reset flushedEntries_def
      truthy_def)

text \<open>
  The three flushes of the spec's examples, with both clock readings at 1000: the
  fragments "Hel" and "lo" with nothing from the model, two empty fields, and two
  fields that are not empty.
\<close>

theorem flush_turn_witness:
  "turnComplete (emptyMessage\<lparr>turnComplete := True\<rparr>)
   \<and> transcript (turnCompleted \<lparr>currentTime = 0, dateNow_user = 1000, dateNow_model = 1000\<rparr>
        (emptyMessage\<lparr>turnComplete := True\<rparr>)
        (initialApp\<lparr>transcriptionBuffer_user := ''Hel'' @ ''lo'',
                     transcriptionBuffer_model := '' ''\<rparr>))
     = [\<lparr>entry_type = user, entry_text = ''Hello'', timestamp = 1000\<rparr>]
   \<and> transcript (turnCompleted \<lparr>currentTime = 0, dateNow_user = 1000, dateNow_model = 1000\<rparr>
        (emptyMessage\<lparr>turnComplete := True\<rparr>) initialApp) = []
   \<and> transcript (turnCompleted \<lparr>currentTime = 0, dateNow_user = 1000, dateNow_model = 1000\<rparr>
        (emptyMessage\<lparr>turnComplete := True\<rparr>)
        (initialApp\<lparr>transcriptionBuffer_user := '' Hi'',
                     transcriptionBuffer_model := ''Hello! ''\<rparr>))
     = [\<lparr>entry_type = user, entry_text = ''Hi'', timestamp = 1000\<rparr>,
        \<lparr>entry_type = model, entry_text = ''Hello!'', timestamp = 1001\<rparr>]
   \<and> transcriptionBuffer_user
       (turnCompleted \<lparr>currentTime = 0, dateNow_user = 1000, dateNow_model = 1000\<rparr>
        (emptyMessage\<lparr>turnComplete := True\<rparr>)
        (initialApp\<lparr>transcriptionBuffer_user := '' Hi'',
                     transcriptionBuffer_model := ''Hello! ''\<rparr>)) = []"
  using
    flush_turn [of "emptyMessage\<lparr>turnComplete := True\<rparr>"
      "initialApp\<lparr>transcriptionBuffer_user := ''Hel'' @ ''lo'',
                   transcriptionBuffer_model := '' ''\<rparr>"
      "\<lparr>currentTime = 0, dateNow_user = 1000, dateNow_model = 1000\<rparr>"]
    flush_turn [of "emptyMessage\<lparr>turnComplete := True\<rparr>" initialApp
      "\<lparr>currentTime = 0, dateNow_user = 1000, dateNow_model = 1000\<rparr>"]
    flush_turn [of "emptyMessage\<lparr>turnComplete := True\<rparr>"
      "initialApp\<lparr>transcriptionBuffer_user := '' Hi'',
                   transcriptionBuffer_model := ''Hello! ''\<rparr>"
      "\<lparr>currentTime = 0, dateNow_user = 1000, dateNow_model = 1000\<rparr>"]
  by (simp add: Let_def emptyMessage_def initialApp_def trim_def isWhiteSpace_def)

text \<open>
  When the clock advances between the two readings, from 1000 to 1001, the model
  entry is stamped 1002, two units after the user entry.
\<close>

theorem flush_turn_counterexample:
  "map timestamp
     (transcript (turnCompleted \<lparr>currentTime = 0, dateNow_user = 1000, dateNow_model = 1001\<rparr>
        (emptyMessage\<lparr>turnComplete := True\<rparr>)
        (initialApp\<lparr>transcriptionBuffer_user := ''Hi'',
                     transcriptionBuffer_model := ''Hello!''\<rparr>))) = [1000, 1002]
   \<and> timestamp (transcript (turnCompleted
          \<lparr>currentTime = 0, dateNow_user = 1000, dateNow_model = 1001\<rparr>
          (emptyMessage\<lparr>turnComplete := True\<rparr>)
          (initialApp\<lparr>transcriptionBuffer_user := ''Hi'',
                       transcriptionBuffer_model := ''Hello!''\<rparr>)) ! 1)
     \<noteq> timestamp (transcript (turnCompleted
          \<lparr>currentTime = 0, dateNow_user = 1000, dateNow_model = 1001\<rparr>
          (emptyMessage\<lparr>turnComplete := True\<rparr>)
          (initialApp\<lparr>transcriptionBuffer_user := ''Hi'',
                       transcriptionBuffer_model := ''Hello!''\<rparr>)) ! 0) + 1"
  by (simp add: turnCompleted_def Let_def flushedEntries_def truthy_def emptyMessage_def
      initialApp_def trim_def isWhiteSpace_def)

section \<open>The playback cursor\<close>

text \<open>
  Claim C2. For every audio payload that decodes, the handler starts the new
  source at the larger of the cursor and the device clock, adds it to the active
  set, and leaves the cursor at that start time plus the duration of the buffer.
  Hence three payloads of durations \<open>d1\<close>, \<open>d2\<close>, \<open>d3\<close>, the first arriving when
  the cursor is not ahead of the clock time \<open>t0\<close> and the next two while the clock
  is not ahead of the cursor, start at \<open>t0\<close>, \<open>t0 + d1\<close> and \<open>t0 + d1 + d2\<close>.
\<close>

theorem enqueue_schedule:
  "(inlineData m = Some p \<and> p \<noteq> [] \<and> dec p = Some d \<longrightarrow>
      (\<exists>s'. audioOutput dec env m s = Inr s'
          \<and> audioSources s' = audioSources s @
               [\<lparr>node_id = nodeCount s, duration = d,
                 startedAt = max (nextStartTime s) (currentTime env)\<rparr>]
          \<and> nextStartTime s' = max (nextStartTime s) (currentTime env) + d))
   \<and> (inlineData m1 = Some p1 \<and> p1 \<noteq> [] \<and> dec p1 = Some d1 \<and> \<not> interrupted m1
      \<and> inlineData m2 = Some p2 \<and> p2 \<noteq> [] \<and> dec p2 = Some d2 \<and> \<not> interrupted m2
      \<and> inlineData m3 = Some p3 \<and> p3 \<noteq> [] \<and> dec p3 = Some d3 \<and> \<not> interrupted m3
      \<and> nextStartTime s \<le> currentTime e1
      \<and> currentTime e2 \<le> currentTime e1 + d1
      \<and> currentTime e3 \<le> currentTime e1 + d1 + d2 \<longrightarrow>
      map startedAt (audioSources
          (onmessage dec e3 m3 (onmessage dec e2 m2 (onmessage dec e1 m1 s)))) =
        map startedAt (audioSources s) @
          [currentTime e1, currentTime e1 + d1, currentTime e1 + d1 + d2])"
proof (intro conjI impI)
  assume "inlineData m = Some p \<and> p \<noteq> [] \<and> dec p = Some d"
  then show "\<exists>s'. audioOutput dec env m s = Inr s'
          \<and> audioSources s' = audioSources s @
               [\<lparr>node_id = nodeCount s, duration = d,
                 startedAt = max (nextStartTime s) (currentTime env)\<rparr>]
          \<and> nextStartTime s' = max (nextStartTime s) (currentTime env) + d"
    by (simp add: audioOutput_enqueue)
next
  assume h: "inlineData m1 = Some p1 \<and> p1 \<noteq> [] \<and> dec p1 = Some d1 \<and> \<not> interrupted m1
      \<and> inlineData m2 = Some p2 \<and> p2 \<noteq> [] \<and> dec p2 = Some d2 \<and> \<not> interrupted m2
      \<and> inlineData m3 = Some p3 \<and> p3 \<noteq> [] \<and> dec p3 = Some d3 \<and> \<not> interrupted m3
      \<and> nextStartTime s \<le> currentTime e1
      \<and> currentTime e2 \<le> currentTime e1 + d1
      \<and> currentTime e3 \<le> currentTime e1 + d1 + d2"
  define s1 where "s1 = onmessage dec e1 m1 s"
  define s2 where "s2 = onmessage dec e2 m2 s1"
  have c1: "nextStartTime s1 = currentTime e1 + d1"
    using h by (simp add: s1_def onmessage_enqueue max_def)
  have a1: "map startedAt (audioSources s1) = map startedAt (audioSources s) @ [currentTime e1]"
    using h by (simp add: s1_def onmessage_enqueue max_def)
  have c2: "nextStartTime s2 = currentTime e1 + d1 + d2"
    using h c1 by (simp add: s2_def onmessage_enqueue max_def)
  have a2: "map startedAt (audioSources s2) =
      map startedAt (audioSources s) @ [currentTime e1, currentTime e1 + d1]"
    using h c1 a1 by (simp add: s2_def onmessage_enqueue max_def)
  have "map startedAt (audioSources (onmessage dec e3 m3 s2)) =
      map startedAt (audioSources s) @
        [currentTime e1, currentTime e1 + d1, currentTime e1 + d1 + d2]"
    using h c2 a2 by (simp add: onmessage_enqueue max_def)
  then show "map startedAt (audioSources
          (onmessage dec e3 m3 (onmessage dec e2 m2 (onmessage dec e1 m1 s)))) =
        map startedAt (audioSources s) @
          [currentTime e1, currentTime e1 + d1, currentTime e1 + d1 + d2]"
    by (simp add: s1_def s2_def)
qed

text \<open>
  A decoder that gives a payload of \<open>n\<close> characters a buffer of \<open>n\<close> seconds; payloads
  of 2, 3 and 1 characters arrive at clock times 10, 11 and 12 on a fresh
  component, and start at 10, 12 and 15.
\<close>

theorem enqueue_schedule_witness:
  "audioSources (projr (audioOutput (\<lambda>p. Some (real (length p)))
      \<lparr>currentTime = 10, dateNow_user = 0, dateNow_model = 0\<rparr>
      (emptyMessage\<lparr>inlineData := Some ''ab''\<rparr>) initialApp))
     = [\<lparr>node_id = 0, duration = 2, startedAt = 10\<rparr>]
   \<and> nextStartTime (projr (audioOutput (\<lambda>p. Some (real (length p)))
      \<lparr>currentTime = 10, dateNow_user = 0, dateNow_model = 0\<rparr>
      (emptyMessage\<lparr>inlineData := Some ''ab''\<rparr>) initialApp)) = 12
   \<and> map startedAt (audioSources
        (onmessage (\<lambda>p. Some (real (length p)))
           \<lparr>currentTime = 12, dateNow_user = 0, dateNow_model = 0\<rparr>
           (emptyMessage\<lparr>inlineData := Some ''c''\<rparr>)
           (onmessage (\<lambda>p. Some (real (length p)))
              \<lparr>currentTime = 11, dateNow_user = 0, dateNow_model = 0\<rparr>
              (emptyMessage\<lparr>inlineData := Some ''abc''\<rparr>)
              (onmessage (\<lambda>p. Some (real (length p)))
                 \<lparr>currentTime = 10, dateNow_user = 0, dateNow_model = 0\<rparr>
                 (emptyMessage\<lparr>inlineData := Some ''ab''\<rparr>) initialApp))))
     = [10, 12, 15]"
  using enqueue_schedule
    [where dec = "\<lambda>p. Some (real (length p))"
       and m = "emptyMessage\<lparr>inlineData := Some ''ab''\<rparr>" and p = "''ab''" and d = 2
       and env = "\<lparr>currentTime = 10, dateNow_user = 0, dateNow_model = 0\<rparr>"
       and s = initialApp
       and ?m1.0 = "emptyMessage\<lparr>inlineData := Some ''ab''\<rparr>" and ?p1.0 = "''ab''" and ?d1.0 = 2
       and ?e1.0 = "\<lparr>currentTime = 10, dateNow_user = 0, dateNow_model = 0\<rparr>"
       and ?m2.0 = "emptyMessage\<lparr>inlineData := Some ''abc''\<rparr>" and ?p2.0 = "''abc''" and ?d2.0 = 3
       and ?e2.0 = "\<lparr>currentTime = 11, dateNow_user = 0, dateNow_model = 0\<rparr>"
       and ?m3.0 = "emptyMessage\<lparr>inlineData := Some ''c''\<rparr>" and ?p3.0 = "''c''" and ?d3.0 = 1
       and ?e3.0 = "\<lparr>currentTime = 12, dateNow_user = 0, dateNow_model = 0\<rparr>"]
  by (auto simp add: emptyMessage_def initialApp_def)

text \<open>
  Claim C3. A message with the interruption flag, handled by \<^verbatim>\<open>onmessage\<close> from any
  state, stops every source of the active set, whatever its start time and
  duration (also the one its own payload has just added), empties the set, puts
  the cursor at zero and clears the talking flag; with an empty set and no
  payload no source is stopped and the cursor is still put at zero. The branch is
  reached unless the payload of the same message fails to decode. The next
  message with a payload, at a clock time that is not negative, starts its source
  at that clock time, whatever the cursor was before the interruption.
\<close>

theorem interrupt_resets:
  "(interrupted m \<and> audioOutput dec env m s = Inr s1 \<longrightarrow>
      set (map node_id (audioSources s)) \<subseteq> set (stoppedNodes (onmessage dec env m s))
    \<and> stoppedNodes (onmessage dec env m s) = stoppedNodes s1 @ map node_id (audioSources s1)
    \<and> audioSources (onmessage dec env m s) = []
    \<and> nextStartTime (onmessage dec env m s) = 0
    \<and> \<not> isModelTalking (onmessage dec env m s))
   \<and> (interrupted m \<and> inlineData m = None \<and> audioSources s = [] \<longrightarrow>
        stoppedNodes (onmessage dec env m s) = stoppedNodes s
      \<and> audioSources (onmessage dec env m s) = []
      \<and> nextStartTime (onmessage dec env m s) = 0
      \<and> \<not> isModelTalking (onmessage dec env m s))
   \<and> (interrupted m \<and> audioOutput dec env m s = Inr s1
        \<and> inlineData m' = Some p \<and> p \<noteq> [] \<and> dec p = Some d \<and> \<not> interrupted m'
        \<and> 0 \<le> currentTime env' \<longrightarrow>
        audioSources (onmessage dec env' m' (onmessage dec env m s))
          = [\<lparr>node_id = nodeCount s1, duration = d, startedAt = currentTime env'\<rparr>]
      \<and> nextStartTime (onmessage dec env' m' (onmessage dec env m s)) = currentTime env' + d)"
proof (intro conjI impI)
  assume h: "interrupted m \<and> audioOutput dec env m s = Inr s1"
  then have st: "stoppedNodes (onmessage dec env m s)
      = stoppedNodes s1 @ map node_id (audioSources s1)"
    by (simp add: onmessage_interrupted)
  from h have "audioOutput dec env m s = Inr s1"
    by simp
  then have "set (audioSources s) \<subseteq> set (audioSources s1)"
    by (rule audioOutput_keeps_sources)
  then have "node_id ` set (audioSources s) \<subseteq> node_id ` set (audioSources s1)"
    by (rule image_mono)
  with st show "set (map node_id (audioSources s)) \<subseteq> set (stoppedNodes (onmessage dec env m s))"
    by auto
  from st show "stoppedNodes (onmessage dec env m s)
      = stoppedNodes s1 @ map node_id (audioSources s1)" .
  from h show "audioSources (onmessage dec env m s) = []"
    by (simp add: onmessage_interrupted)
  from h show "nextStartTime (onmessage dec env m s) = 0"
    by (simp add: onmessage_interrupted)
  from h show "\<not> isModelTalking (onmessage dec env m s)"
    by (simp add: onmessage_interrupted)
next
  assume h: "interrupted m \<and> inlineData m = None \<and> audioSources s = []"
  then have a: "audioOutput dec env m s = Inr s"
    by (simp add: audioOutput_absent)
  from h a show "stoppedNodes (onmessage dec env m s) = stoppedNodes s"
    by (simp add: onmessage_interrupted)
  from h a show "audioSources (onmessage dec env m s) = []"
    by (simp add: onmessage_interrupted)
  from h a show "nextStartTime (onmessage dec env m s) = 0"
    by (simp add: onmessage_interrupted)
  from h a show "\<not> isModelTalking (onmessage dec env m s)"
    by (simp add: onmessage_interrupted)
next
  assume h: "interrupted m \<and> audioOutput dec env m s = Inr s1
        \<and> inlineData m' = Some p \<and> p \<noteq> [] \<and> dec p = Some d \<and> \<not> interrupted m'
        \<and> 0 \<le> currentTime env'"
  then have after: "audioSources (onmessage dec env m s) = []"
      "nextStartTime (onmessage dec env m s) = 0"
      "nodeCount (onmessage dec env m s) = nodeCount s1"
    by (simp_all add: onmessage_interrupted)
  from h after show "audioSources (onmessage dec env' m' (onmessage dec env m s))
          = [\<lparr>node_id = nodeCount s1, duration = d, startedAt = currentTime env'\<rparr>]"
    by (simp add: onmessage_enqueue)
  from h after show "nextStartTime (onmessage dec env' m' (onmessage dec env m s))
      = currentTime env' + d"
    by (simp add: onmessage_enqueue)
qed

text \<open>
  A component with two sources scheduled up to time 9 receives an interruption;
  the payload of the next message, at clock time 4, starts at 4. An interruption
  of the fresh component stops nothing and leaves the cursor at zero.
\<close>

theorem interrupt_resets_witness:
  "interrupted (emptyMessage\<lparr>interrupted := True\<rparr>)
   \<and> stoppedNodes (onmessage (\<lambda>p. Some 2)
        \<lparr>currentTime = 3, dateNow_user = 0, dateNow_model = 0\<rparr>
        (emptyMessage\<lparr>interrupted := True\<rparr>)
        (initialApp\<lparr>nextStartTime := 9, nodeCount := 2, isModelTalking := True,
           audioSources := [\<lparr>node_id = 0, duration = 4, startedAt = 1\<rparr>,
                            \<lparr>node_id = 1, duration = 4, startedAt = 5\<rparr>]\<rparr>)) = [0, 1]
   \<and> audioSources (onmessage (\<lambda>p. Some 2)
        \<lparr>currentTime = 3, dateNow_user = 0, dateNow_model = 0\<rparr>
        (emptyMessage\<lparr>interrupted := True\<rparr>)
        (initialApp\<lparr>nextStartTime := 9, nodeCount := 2, isModelTalking := True,
           audioSources := [\<lparr>node_id = 0, duration = 4, startedAt = 1\<rparr>,
                            \<lparr>node_id = 1, duration = 4, startedAt = 5\<rparr>]\<rparr>)) = []
   \<and> nextStartTime (onmessage (\<lambda>p. Some 2)
        \<lparr>currentTime = 3, dateNow_user = 0, dateNow_model = 0\<rparr>
        (emptyMessage\<lparr>interrupted := True\<rparr>)
        (initialApp\<lparr>nextStartTime := 9, nodeCount := 2, isModelTalking := True,
           audioSources := [\<lparr>node_id = 0, duration = 4, startedAt = 1\<rparr>,
                            \<lparr>node_id = 1, duration = 4, startedAt = 5\<rparr>]\<rparr>)) = 0
   \<and> stoppedNodes (onmessage (\<lambda>p. Some 2)
        \<lparr>currentTime = 3, dateNow_user = 0, dateNow_model = 0\<rparr>
        (emptyMessage\<lparr>interrupted := True\<rparr>) initialApp) = []
   \<and> nextStartTime (onmessage (\<lambda>p. Some 2)
        \<lparr>currentTime = 3, dateNow_user = 0, dateNow_model = 0\<rparr>
        (emptyMessage\<lparr>interrupted := True\<rparr>) initialApp) = 0
   \<and> (0 :: real) \<le> 4
   \<and> audioSources (onmessage (\<lambda>p. Some 2)
        \<lparr>currentTime = 4, dateNow_user = 0, dateNow_model = 0\<rparr>
        (emptyMessage\<lparr>inlineData := Some ''ab''\<rparr>)
        (onmessage (\<lambda>p. Some 2)
           \<lparr>currentTime = 3, dateNow_user = 0, dateNow_model = 0\<rparr>
           (emptyMessage\<lparr>interrupted := True\<rparr>)
           (initialApp\<lparr>nextStartTime := 9, nodeCount := 2, isModelTalking := True,
              audioSources := [\<lparr>node_id = 0, duration = 4, startedAt = 1\<rparr>,
                               \<lparr>node_id = 1, duration = 4, startedAt = 5\<rparr>]\<rparr>)))
       = [\<lparr>node_id = 2, duration = 2, startedAt = 4\<rparr>]"
  using
    interrupt_resets
      [where m = "emptyMessage\<lparr>interrupted := True\<rparr>"
         and dec = "\<lambda>p. Some 2"
         and env = "\<lparr>currentTime = 3, dateNow_user = 0, dateNow_model = 0\<rparr>"
         and s = "initialApp\<lparr>nextStartTime := 9, nodeCount := 2, isModelTalking := True,
           audioSources := [\<lparr>node_id = 0, duration = 4, startedAt = 1\<rparr>,
                            \<lparr>node_id = 1, duration = 4, startedAt = 5\<rparr>]\<rparr>"
         and ?s1.0 = "initialApp\<lparr>nextStartTime := 9, nodeCount := 2, isModelTalking := True,
           audioSources := [\<lparr>node_id = 0, duration = 4, startedAt = 1\<rparr>,
                            \<lparr>node_id = 1, duration = 4, startedAt = 5\<rparr>]\<rparr>"
         and m' = "emptyMessage\<lparr>inlineData := Some ''ab''\<rparr>" and p = "''ab''" and d = 2
         and env' = "\<lparr>currentTime = 4, dateNow_user = 0, dateNow_model = 0\<rparr>"]
    interrupt_resets
      [where m = "emptyMessage\<lparr>interrupted := True\<rparr>"
         and dec = "\<lambda>p. Some 2"
         and env = "\<lparr>currentTime = 3, dateNow_user = 0, dateNow_model = 0\<rparr>"
         and s = initialApp and ?s1.0 = initialApp
         and m' = emptyMessage and p = "[]" and d = 0
         and env' = "\<lparr>currentTime = 0, dateNow_user = 0, dateNow_model = 0\<rparr>"]
  by (simp add: emptyMessage_def initialApp_def audioOutput_def)




section \<open>The session controller\<close>

text \<open>
  Claim C5. \<^verbatim>\<open>startSession\<close> has no guard: called while the status is \<^verbatim>\<open>CONNECTED\<close>
  it sets the status to \<^verbatim>\<open>CONNECTING\<close> and raises nothing. What keeps a second start
  away is the button: while the status is \<^verbatim>\<open>CONNECTING\<close> it is disabled and a click
  changes nothing, while it is \<^verbatim>\<open>CONNECTED\<close> a click runs \<^verbatim>\<open>stopSession\<close>, and only
  otherwise does a click run \<^verbatim>\<open>startSession\<close>.
\<close>

theorem click_gate:
  "(status s = CONNECTING \<longrightarrow> onClick s = s)
   \<and> (status s = CONNECTED \<longrightarrow>
        onClick s = stopSession s \<and> status (onClick s) = DISCONNECTED)
   \<and> (status s \<noteq> CONNECTING \<and> status s \<noteq> CONNECTED \<longrightarrow>
        onClick s = startSession_sync s \<and> status (onClick s) = CONNECTING
        \<and> error (onClick s) = None)"
  by (simp add: onClick_def disabled_def stopSession_status)
     (simp add: startSession_sync_def Let_def)

theorem click_gate_witness:
  "status (initialApp\<lparr>status := CONNECTING\<rparr>) = CONNECTING
   \<and> onClick (initialApp\<lparr>status := CONNECTING\<rparr>) = initialApp\<lparr>status := CONNECTING\<rparr>
   \<and> status (initialApp\<lparr>status := CONNECTED, sessionRef := Some 1\<rparr>) = CONNECTED
   \<and> status (onClick (initialApp\<lparr>status := CONNECTED, sessionRef := Some 1\<rparr>)) = DISCONNECTED
   \<and> status initialApp = DISCONNECTED
   \<and> status (onClick initialApp) = CONNECTING"
  using click_gate [of "initialApp\<lparr>status := CONNECTING\<rparr>"]
    click_gate [of "initialApp\<lparr>status := CONNECTED, sessionRef := Some 1\<rparr>"]
    click_gate [of initialApp]
  by (simp add: initialApp_def onClick_def disabled_def stopSession_def
      startSession_sync_def Let_def)

text \<open>
  \<^verbatim>\<open>startSession\<close> called on a connected component, the session promise resolving:
  the status goes from \<^verbatim>\<open>CONNECTED\<close> to \<^verbatim>\<open>CONNECTING\<close>, no error is recorded and the
  handle of the new session replaces the old one.
\<close>

theorem click_gate_counterexample:
  "status (initialApp\<lparr>status := CONNECTED, sessionRef := Some 1\<rparr>) = CONNECTED
   \<and> status (startSession (ConnectResolves 2 2)
        (initialApp\<lparr>status := CONNECTED, sessionRef := Some 1\<rparr>)) = CONNECTING
   \<and> error (startSession (ConnectResolves 2 2)
        (initialApp\<lparr>status := CONNECTED, sessionRef := Some 1\<rparr>)) = None
   \<and> sessionRef (startSession (ConnectResolves 2 2)
        (initialApp\<lparr>status := CONNECTED, sessionRef := Some 1\<rparr>)) = Some 2"
  by (simp add: startSession_def startSession_sync_def startSession_rest_def initialApp_def
      Let_def)

text \<open>
  Claim C6. Whichever call of the \<^verbatim>\<open>try\<close> block of \<^verbatim>\<open>startSession\<close> throws or
  rejects, the error is caught there: the error message of the component becomes
  the message of the error (or the default text when it has none), which is never
  empty, and the status is \<^verbatim>\<open>DISCONNECTED\<close>, whatever the callbacks did to the state
  while the start was pending.
\<close>

theorem start_errors_caught:
  "raised out = Some e \<longrightarrow>
     status (startSession out s) = DISCONNECTED
   \<and> error (startSession out s) = Some (errorMessage e)
   \<and> errorMessage e \<noteq> []
   \<and> status (startSession_rest out s') = DISCONNECTED
   \<and> error (startSession_rest out s') = Some (errorMessage e)"
  by (simp add: startSession_def startSession_rest_raised errorMessage_nonempty)

text \<open>
  The microphone is refused on the fresh component; and the connection fails,
  with an error that has no message, after \<^verbatim>\<open>onopen\<close> has run.
\<close>

theorem start_errors_caught_witness:
  "raised (GetUserMediaRejects (Some ''Permission denied'')) = Some (Some ''Permission denied'')
   \<and> status (startSession (GetUserMediaRejects (Some ''Permission denied'')) initialApp)
       = DISCONNECTED
   \<and> error (startSession (GetUserMediaRejects (Some ''Permission denied'')) initialApp)
       = Some ''Permission denied''
   \<and> raised (ConnectRejects 3 None) = Some None
   \<and> status (startSession_rest (ConnectRejects 3 None)
        (onopen 3 (startSession_sync initialApp))) = DISCONNECTED
   \<and> error (startSession_rest (ConnectRejects 3 None)
        (onopen 3 (startSession_sync initialApp)))
       = Some ''Could not access microphone or start AI session.''"
  using
    start_errors_caught [of "GetUserMediaRejects (Some ''Permission denied'')"
      "Some ''Permission denied''" initialApp initialApp]
    start_errors_caught [of "ConnectRejects 3 None" None initialApp
      "onopen 3 (startSession_sync initialApp)"]
  by (simp add: errorMessage_def truthy_def)



text \<open>
  Claim C8. A click starts a session, the session promise resolves with the
  microphone stream 7 and the handle 1, the session opens, and a second click
  stops it. The handle is closed and the status is \<^verbatim>\<open>DISCONNECTED\<close>, but the tracks
  of stream 7 are still running and its capture nodes still connected:
  \<^verbatim>\<open>stopSession\<close> does not call \<^verbatim>\<open>window._audioCleanup\<close>, which only the unmounting
  of the component does. In any state, \<^verbatim>\<open>stopSession\<close> leaves the running tracks and
  the connected capture nodes as they were.
\<close>

theorem stop_keeps_microphone:
  "status (run dec [Click, StartSettles (ConnectResolves 7 1), OnOpen 7, Click] initialApp)
     = DISCONNECTED
   \<and> closedSessions
       (run dec [Click, StartSettles (ConnectResolves 7 1), OnOpen 7, Click] initialApp) = [1]
   \<and> liveTracks
       (run dec [Click, StartSettles (ConnectResolves 7 1), OnOpen 7, Click] initialApp) = [7]
   \<and> captureGraphs
       (run dec [Click, StartSettles (ConnectResolves 7 1), OnOpen 7, Click] initialApp) = [7]
   \<and> liveTracks
       (run dec [Click, StartSettles (ConnectResolves 7 1), OnOpen 7, Unmount] initialApp) = []
   \<and> captureGraphs
       (run dec [Click, StartSettles (ConnectResolves 7 1), OnOpen 7, Unmount] initialApp) = []
   \<and> liveTracks (stopSession s) = liveTracks s
   \<and> captureGraphs (stopSession s) = captureGraphs s"
  by (simp add: stopSession_microphone)
     (simp add: run_def onClick_def disabled_def startSession_sync_def startSession_rest_def
      onopen_def stopSession_def unmount_def runAudioCleanup_def initialApp_def Let_def)

text \<open>
  Claim C10. No event assigns \<^verbatim>\<open>ERROR\<close>: each one leaves the status as it was or
  sets it to \<^verbatim>\<open>DISCONNECTED\<close>, \<^verbatim>\<open>CONNECTING\<close> or \<^verbatim>\<open>CONNECTED\<close>, so that the status is
  never \<^verbatim>\<open>ERROR\<close> after any sequence of events on the fresh component. The two
  error paths, a failing start and the \<^verbatim>\<open>onerror\<close> callback, end with the status
  \<^verbatim>\<open>DISCONNECTED\<close> and the error in the error message.
\<close>

theorem never_ERROR:
  "status (step dec e s) \<in> {status s, DISCONNECTED, CONNECTING, CONNECTED}
   \<and> status (run dec es initialApp) \<noteq> ERROR
   \<and> (raised out = Some err \<longrightarrow>
        status (startSession_rest out s) = DISCONNECTED
      \<and> error (startSession_rest out s) = Some (errorMessage err))
   \<and> status (onerror s) = DISCONNECTED
   \<and> error (onerror s) = Some ''A connection error occurred. Please try again.''"
  using step_status [of dec e s] run_not_ERROR [of initialApp dec es]
  by (simp add: startSession_rest_raised onerror_status initialApp_def)

text \<open>
  A start that fails at the connection, and a session that opens and then reports
  an error.
\<close>

theorem never_ERROR_witness:
  "raised (ConnectRejects 7 (Some ''refused'')) = Some (Some ''refused'')
   \<and> status (startSession_rest (ConnectRejects 7 (Some ''refused''))
        (startSession_sync initialApp)) = DISCONNECTED
   \<and> error (startSession_rest (ConnectRejects 7 (Some ''refused''))
        (startSession_sync initialApp)) = Some ''refused''
   \<and> status (run (\<lambda>p. None)
        [Click, StartSettles (ConnectResolves 7 1), OnOpen 7, OnError] initialApp) \<noteq> ERROR
   \<and> status (onerror (startSession_sync initialApp)) = DISCONNECTED"
  using never_ERROR [of "\<lambda>p. None" Click initialApp
      "[Click, StartSettles (ConnectResolves 7 1), OnOpen 7, OnError]"
      "ConnectRejects 7 (Some ''refused'')" "Some ''refused''"]
    never_ERROR [of "\<lambda>p. None" Click "startSession_sync initialApp"
      "[Click, StartSettles (ConnectResolves 7 1), OnOpen 7, OnError]"
      "ConnectRejects 7 (Some ''refused'')" "Some ''refused''"]
  by (simp add: errorMessage_def truthy_def)

section \<open>The round trip of the codec\<close>

text \<open>
  Claim C9. For every sequence of samples between -1 and 1, and whichever way the
  scaled sample is made an integer, decoding the encoded sequence gives as many
  values as there were samples, each less than 1/16384 (two steps of 1/32768)
  away from its sample. One step of 1/32767 is not a bound: scaling by 32767 and
  dividing by 32768 adds up to 1/32768 to the rounding error of up to 1/32767.
\<close>

theorem roundtrip_two_steps:
  assumes "\<forall>x \<in> set samples. - 1 \<le> x \<and> x \<le> 1"
  shows "length (decode (encode r samples)) = length samples
     \<and> (\<forall>i < length samples. \<bar>decode (encode r samples) ! i - samples ! i\<bar> < 1 / 16384)"
proof (intro conjI allI impI)
  show "length (decode (encode r samples)) = length samples"
    by (simp add: decode_encode_map)
next
  fix i
  assume i: "i < length samples"
  with assms have "- 1 \<le> samples ! i" "samples ! i \<le> 1"
    by simp_all
  then have "\<bar>real_of_int (toInt16 r (samples ! i * 32767)) / 32768 - samples ! i\<bar> < 1 / 16384"
    by (rule sample_error)
  with i show "\<bar>decode (encode r samples) ! i - samples ! i\<bar> < 1 / 16384"
    by (simp add: decode_encode_map)
qed

text \<open>
  The samples 131069/131072, -1, 1/2 and 0, the fraction dropped: the first decodes
  to 16383/16384, which is 5/131072 away.
\<close>

theorem roundtrip_two_steps_witness:
  "decode (encode TowardZero [131069 / 131072, - 1, 1 / 2, 0])
     = [16383 / 16384, - (32767 / 32768), 16383 / 32768, 0]
   \<and> length (decode (encode TowardZero [131069 / 131072, - 1, 1 / 2, 0])) = 4
   \<and> \<bar>decode (encode TowardZero [131069 / 131072, - 1, 1 / 2, 0]) ! 0 - 131069 / 131072\<bar>
       < 1 / 16384"
  using roundtrip_two_steps [of "[131069 / 131072, - 1, 1 / 2, 0]" TowardZero]
  by (simp add: decode_encode_map toInt16_def)

text \<open>
  The samples 131069/131072 and its negative are both in range. Scaled by 32767
  they are 32766.25 and -32766.25; dropping the fraction, rounding to nearest and
  rounding down all make the first 32766, and rounding up makes the second
  -32766. The decoded value, 32766/32768 in absolute value, is 5/131072 away
  from the sample, more than 1/32767.
\<close>

theorem roundtrip_two_steps_counterexample:
  "\<not> \<bar>decode (encode TowardZero [131069 / 131072, - (131069 / 131072)]) ! 0
        - 131069 / 131072\<bar> \<le> 1 / 32767
   \<and> \<not> \<bar>decode (encode ToNearest [131069 / 131072, - (131069 / 131072)]) ! 0
        - 131069 / 131072\<bar> \<le> 1 / 32767
   \<and> \<not> \<bar>decode (encode Down [131069 / 131072, - (131069 / 131072)]) ! 0
        - 131069 / 131072\<bar> \<le> 1 / 32767
   \<and> \<not> \<bar>decode (encode Up [131069 / 131072, - (131069 / 131072)]) ! 1
        - (- (131069 / 131072))\<bar> \<le> 1 / 32767"
  by (simp add: decode_encode_map toInt16_def)

end
